theory Spec2Isabelle
  imports Main
begin

section \<open>The TPM CRB ISA device of hw/tpm/tpm\_crb.c\<close>

text \<open>
  The file glues the CRB core engine (the functions \<open>tpm_crb_*\<close> of tpm\_crb.h) to the
  platform: realize, reset, pre-save and the ACPI fragment. The model passes the state
  explicitly: a machine holds the device instances, the subregions of the ISA address space
  and the registered reset handlers. What the file takes from headers that are not part of
  the sources (the three address constants and the engine's functions) is a parameter of
  the model, the record \<open>ext\<close>, so that every theorem holds for every value of the
  constants and every engine.
\<close>

subsection \<open>Data\<close>

type_synonym hwaddr = nat
type_synonym dev_id = nat
type_synonym TPMBackend = nat
type_synonym Error = string

text \<open>
  \<open>enum TPMVersion\<close>: the file names \<open>TPM_VERSION_2_0\<close> only and treats every other
  value alike.
\<close>

datatype TPMVersion = TPM_VERSION_2_0 | TPM_VERSION_other nat

text \<open>
  \<open>TPMCRBState\<close>: the two fields the properties set, and \<open>core\<close> for everything else the
  engine owns (registers, command buffer, the memory behind \<open>mmio\<close> and \<open>ppi.ram\<close>).
  A null \<open>tpmbe\<close> pointer is \<open>None\<close>.
\<close>

record 'e TPMCRBState =
  tpmbe :: "TPMBackend option"
  ppi_enabled :: bool
  core :: 'e

text \<open>\<open>struct CRBState\<close>, without the parent object.\<close>

record 'e CRBState =
  state :: "'e TPMCRBState"

text \<open>The two memory regions of a device: \<open>&s->state.mmio\<close> and \<open>&s->state.ppi.ram\<close>.\<close>

datatype MemoryRegion = Mmio dev_id | PpiRam dev_id

text \<open>The functions this file hands to \<open>qemu_register_reset\<close>.\<close>

datatype QEMUResetHandler = Ptr_tpm_crb_isa_reset

text \<open>
  The declarations the file uses from hw/acpi/tpm.h and tpm\_crb.h, as parameters. An engine
  function receives \<open>&s->state\<close> and returns the new \<open>core\<close>: it reads the properties
  and does not write them. \<open>tpm_crb_init_memory\<close> also returns what it stored through
  \<open>errp\<close>, \<open>None\<close> when it stored nothing.
\<close>

record 'e ext =
  TPM_CRB_ADDR_BASE :: hwaddr
  TPM_CRB_ADDR_SIZE :: hwaddr
  TPM_PPI_ADDR_BASE :: hwaddr
  tpm_crb_init_memory :: "'e TPMCRBState \<Rightarrow> 'e \<times> Error option"
  tpm_crb_reset :: "'e TPMCRBState \<Rightarrow> hwaddr \<Rightarrow> 'e"
  tpm_crb_get_version :: "'e TPMCRBState \<Rightarrow> TPMVersion"
  tpm_crb_request_completed :: "'e TPMCRBState \<Rightarrow> int \<Rightarrow> 'e"
  tpm_crb_pre_save :: "'e TPMCRBState \<Rightarrow> int \<times> 'e"

text \<open>
  The platform as realize sees it. \<open>tpm_ifs\<close> lists the objects that implement
  \<open>TYPE_TPM_IF\<close>, the instance being realized among them; \<open>crb_resets\<close> records every
  call of the engine's \<open>tpm_crb_reset\<close> with the device and the base address it received.
\<close>

record 'e machine =
  objects :: "dev_id \<Rightarrow> 'e CRBState"
  tpm_ifs :: "dev_id list"
  xen_enabled :: bool
  isa_address_space :: "(hwaddr \<times> MemoryRegion) list"
  reset_handlers :: "(QEMUResetHandler \<times> dev_id) list"
  crb_resets :: "(dev_id \<times> hwaddr) list"

subsection \<open>Platform services\<close>

text \<open>
  Modelled from the spec: \<open>tpm_find\<close> (sysemu/tpm.h) is missing from the sources. The spec's
  first precondition of realize is that no other device instance exists on the platform, so
  the function yields the TPM interface object when the platform has exactly one, and null
  otherwise.
\<close>

definition tpm_find :: "'e machine \<Rightarrow> dev_id option" where
  "tpm_find M = (case tpm_ifs M of [d] \<Rightarrow> Some d | _ \<Rightarrow> None)"

text \<open>
  Modelled from the spec: \<open>memory_region_add_subregion\<close> and \<open>isa_address_space\<close>
  (exec/memory.h, hw/isa/isa.h) are missing from the sources. The spec has realize map a
  region at a base address into the platform bus address space, which gains a subregion:
  the address space is the list of its subregions with their offsets, in the order in which
  they were added.
\<close>

definition memory_region_add_subregion ::
  "hwaddr \<Rightarrow> MemoryRegion \<Rightarrow> 'e machine \<Rightarrow> 'e machine" where
  "memory_region_add_subregion offset subregion M =
     M\<lparr>isa_address_space := isa_address_space M @ [(offset, subregion)]\<rparr>"

text \<open>
  Modelled from the spec: \<open>qemu_register_reset\<close> (sysemu/reset.h) is missing from the
  sources. The spec has it register a callback with the platform-wide reset dispatcher: the
  registry is the list of the callbacks with their opaque pointers.
\<close>

definition qemu_register_reset ::
  "QEMUResetHandler \<Rightarrow> dev_id \<Rightarrow> 'e machine \<Rightarrow> 'e machine" where
  "qemu_register_reset func opaque M =
     M\<lparr>reset_handlers := reset_handlers M @ [(func, opaque)]\<rparr>"

subsection \<open>The device's callbacks\<close>

definition tpm_crb_isa_request_completed ::
  "'e ext \<Rightarrow> 'e CRBState \<Rightarrow> int \<Rightarrow> 'e CRBState" where
  "tpm_crb_isa_request_completed X s ret =
     s\<lparr>state := (state s)\<lparr>core := tpm_crb_request_completed X (state s) ret\<rparr>\<rparr>"

definition tpm_crb_isa_get_version :: "'e ext \<Rightarrow> 'e CRBState \<Rightarrow> TPMVersion" where
  "tpm_crb_isa_get_version X s = tpm_crb_get_version X (state s)"

text \<open>The hook returns the engine's status and leaves the device as the engine left it.\<close>

definition tpm_crb_isa_pre_save :: "'e ext \<Rightarrow> 'e CRBState \<Rightarrow> int \<times> 'e CRBState" where
  "tpm_crb_isa_pre_save X s =
     (case tpm_crb_pre_save X (state s) of
        (ret, c) \<Rightarrow> (ret, s\<lparr>state := (state s)\<lparr>core := c\<rparr>\<rparr>))"

text \<open>\<open>VMStateDescription\<close>: \<open>vmsd_fields\<close> is the array up to \<open>VMSTATE_END_OF_LIST\<close>.\<close>

record 'e VMStateDescription =
  vmsd_name :: string
  vmsd_pre_save :: "'e ext \<Rightarrow> 'e CRBState \<Rightarrow> int \<times> 'e CRBState"
  vmsd_fields :: "string list"

definition vmstate_tpm_crb_isa :: "'e VMStateDescription" where
  "vmstate_tpm_crb_isa =
     \<lparr>vmsd_name = ''tpm-crb'', vmsd_pre_save = tpm_crb_isa_pre_save, vmsd_fields = []\<rparr>"

text \<open>
  The property table up to \<open>DEFINE_PROP_END_OF_LIST\<close>: the property's name, the field it
  sets and, for a boolean, its default.
\<close>

datatype Field = State_tpmbe | State_ppi_enabled

datatype Property = DEFINE_PROP_TPMBE string Field | DEFINE_PROP_BOOL string Field bool

definition tpm_crb_isa_properties :: "Property list" where
  "tpm_crb_isa_properties =
     [DEFINE_PROP_TPMBE ''tpmdev'' State_tpmbe,
      DEFINE_PROP_BOOL ''ppi'' State_ppi_enabled True]"

text \<open>The defaults the table gives to a boolean field.\<close>

fun prop_defaults :: "Property list \<Rightarrow> Field \<Rightarrow> bool list" where
  "prop_defaults [] f = []"
| "prop_defaults (DEFINE_PROP_TPMBE n g # ps) f = prop_defaults ps f"
| "prop_defaults (DEFINE_PROP_BOOL n g v # ps) f =
     (if g = f then v # prop_defaults ps f else prop_defaults ps f)"

text \<open>
  The device after the engine's \<open>tpm_crb_reset\<close> has run on its state with the base
  address \<open>baseaddr\<close>.
\<close>

definition engine_reset :: "'e ext \<Rightarrow> hwaddr \<Rightarrow> 'e CRBState \<Rightarrow> 'e CRBState" where
  "engine_reset X baseaddr s =
     s\<lparr>state := (state s)\<lparr>core := tpm_crb_reset X (state s) baseaddr\<rparr>\<rparr>"

text \<open>
  The call \<open>tpm_crb_reset(&s->state, baseaddr)\<close> for the device \<open>dev\<close>: the engine's reset
  runs with the argument \<open>baseaddr\<close>, and the call is recorded in \<open>crb_resets\<close> with that
  same argument.
\<close>

definition call_tpm_crb_reset ::
  "'e ext \<Rightarrow> dev_id \<Rightarrow> hwaddr \<Rightarrow> 'e machine \<Rightarrow> 'e machine" where
  "call_tpm_crb_reset X dev baseaddr M =
     M\<lparr>objects := (objects M)(dev := engine_reset X baseaddr (objects M dev)),
       crb_resets := crb_resets M @ [(dev, baseaddr)]\<rparr>"

text \<open>
  \<open>tpm_crb_isa_reset\<close>: the engine's reset on the device's state, with the fixed base
  address.
\<close>

definition tpm_crb_isa_reset :: "'e ext \<Rightarrow> dev_id \<Rightarrow> 'e machine \<Rightarrow> 'e machine" where
  "tpm_crb_isa_reset X dev M = call_tpm_crb_reset X dev (TPM_CRB_ADDR_BASE X) M"

text \<open>
  \<open>tpm_crb_isa_realize\<close>, called with \<open>*errp\<close> null; the first component of the result is
  \<open>*errp\<close> on return. The result of \<open>tpm_crb_init_memory\<close> is not inspected: whatever
  it stored through \<open>errp\<close>, the function goes on.
\<close>

definition tpm_crb_isa_realize ::
  "'e ext \<Rightarrow> dev_id \<Rightarrow> 'e machine \<Rightarrow> Error option \<times> 'e machine" where
  "tpm_crb_isa_realize X dev M =
     (let s = objects M dev in
      if tpm_find M = None then (Some ''at most one TPM device is permitted'', M)
      else if tpmbe (state s) = None then (Some '''tpmdev' property is required'', M)
      else
        (case tpm_crb_init_memory X (state s) of
           (c, errp) \<Rightarrow>
             let M1 = M\<lparr>objects := (objects M)(dev := s\<lparr>state := (state s)\<lparr>core := c\<rparr>\<rparr>)\<rparr>;
                 M2 = memory_region_add_subregion (TPM_CRB_ADDR_BASE X) (Mmio dev) M1;
                 M3 = (if ppi_enabled (state (objects M2 dev))
                       then memory_region_add_subregion (TPM_PPI_ADDR_BASE X) (PpiRam dev) M2
                       else M2);
                 M4 = (if xen_enabled M3 then tpm_crb_isa_reset X dev M3
                       else qemu_register_reset Ptr_tpm_crb_isa_reset dev M3)
             in (errp, M4)))"

text \<open>
  Modelled from the spec: how the platform-wide reset dispatcher calls a registered
  callback is missing from the sources (sysemu/reset.h). The spec has the dispatcher invoke
  the callback that was registered; it is called with the opaque pointer it was registered
  with.
\<close>

fun call_reset_handler ::
  "'e ext \<Rightarrow> QEMUResetHandler \<times> dev_id \<Rightarrow> 'e machine \<Rightarrow> 'e machine" where
  "call_reset_handler X (Ptr_tpm_crb_isa_reset, opaque) M = tpm_crb_isa_reset X opaque M"

text \<open>
  Modelled from the spec: the platform-wide reset dispatcher (\<open>qemu_devices_reset\<close>,
  sysemu/reset.h) is missing from the sources. The spec has it invoke every registered
  callback at every platform reset; they run here in the order of their registration.
\<close>

definition qemu_devices_reset :: "'e ext \<Rightarrow> 'e machine \<Rightarrow> 'e machine" where
  "qemu_devices_reset X M = fold (call_reset_handler X) (reset_handlers M) M"

subsection \<open>The ACPI fragment\<close>

text \<open>
  Modelled from the spec: the AML builders (\<open>aml_device\<close>, \<open>aml_name_decl\<close>,
  \<open>aml_append\<close> and the others, hw/acpi/aml-build.h) are missing from the sources, and the
  spec leaves the table compiler out of its scope. An \<open>Aml\<close> node is the call that made
  it, with its arguments, and the children appended to it since. Of \<open>AmlReadAndWrite\<close>
  the file uses \<open>AML_READ_WRITE\<close>.
\<close>

datatype AmlReadAndWrite = AML_READ_ONLY | AML_READ_WRITE

datatype AmlOp =
    Op_device string
  | Op_name_decl string Aml
  | Op_string string
  | Op_eisaid string
  | Op_int nat
  | Op_resource_template
  | Op_memory32_fixed hwaddr hwaddr AmlReadAndWrite
  | Op_scope string
  | Op_ppi
and Aml = Aml (op: AmlOp) (kids: "Aml list")

definition aml_device :: "string \<Rightarrow> Aml" where
  "aml_device n = Aml (Op_device n) []"

definition aml_name_decl :: "string \<Rightarrow> Aml \<Rightarrow> Aml" where
  "aml_name_decl n val = Aml (Op_name_decl n val) []"

definition aml_string :: "string \<Rightarrow> Aml" where
  "aml_string v = Aml (Op_string v) []"

definition aml_eisaid :: "string \<Rightarrow> Aml" where
  "aml_eisaid v = Aml (Op_eisaid v) []"

definition aml_int :: "nat \<Rightarrow> Aml" where
  "aml_int v = Aml (Op_int v) []"

definition aml_resource_template :: "Aml" where
  "aml_resource_template = Aml Op_resource_template []"

definition aml_memory32_fixed :: "hwaddr \<Rightarrow> hwaddr \<Rightarrow> AmlReadAndWrite \<Rightarrow> Aml" where
  "aml_memory32_fixed addr sz rw = Aml (Op_memory32_fixed addr sz rw) []"

definition aml_append :: "Aml \<Rightarrow> Aml \<Rightarrow> Aml" where
  "aml_append parent child = Aml (op parent) (kids parent @ [child])"

text \<open>
  Modelled from the spec: \<open>tpm_build_ppi_acpi\<close> (hw/acpi/tpm.h) is missing from the
  sources. The spec has the PPI builder append the PPI firmware description to an existing
  device node when PPI is enabled; the builder receives the device and the node, and the
  fragment is one node here.
\<close>

definition tpm_build_ppi_acpi :: "'e CRBState \<Rightarrow> Aml \<Rightarrow> Aml" where
  "tpm_build_ppi_acpi ti dev =
     (if ppi_enabled (state ti) then aml_append dev (Aml Op_ppi []) else dev)"

text \<open>
  \<open>build_tpm_crb_isa_aml\<close>: \<open>adev\<close> is the device, \<open>s\<close> its state in the machine. The
  function writes to the nodes it builds and to \<open>scope\<close> only; the machine is returned
  with the scope to state that.
\<close>

definition build_tpm_crb_isa_aml ::
  "'e ext \<Rightarrow> dev_id \<Rightarrow> 'e machine \<Rightarrow> Aml \<Rightarrow> 'e machine \<times> Aml" where
  "build_tpm_crb_isa_aml X adev M scope =
     (let s = objects M adev;
          ti = s;
          dev = aml_device ''TPM'';
          dev = (if tpm_crb_isa_get_version X ti = TPM_VERSION_2_0
                 then aml_append
                        (aml_append dev (aml_name_decl ''_HID'' (aml_string ''MSFT0101'')))
                        (aml_name_decl ''_STR'' (aml_string ''TPM 2.0 Device''))
                 else aml_append dev (aml_name_decl ''_HID'' (aml_eisaid ''PNP0C31'')));
          dev = aml_append dev (aml_name_decl ''_UID'' (aml_int 1));
          dev = aml_append dev (aml_name_decl ''_STA'' (aml_int 0xF));
          crs = aml_resource_template;
          crs = aml_append crs
                  (aml_memory32_fixed (TPM_CRB_ADDR_BASE X) (TPM_CRB_ADDR_SIZE X) AML_READ_WRITE);
          dev = aml_append dev (aml_name_decl ''_CRS'' crs);
          dev = tpm_build_ppi_acpi ti dev
      in (M, aml_append scope dev))"

text \<open>The names declared in a node, and whether a node holds the PPI fragment.\<close>

fun decl_name :: "Aml \<Rightarrow> string option" where
  "decl_name (Aml (Op_name_decl n v) ks) = Some n"
| "decl_name (Aml _ ks) = None"

definition decl_names :: "Aml \<Rightarrow> string list" where
  "decl_names dev = List.map_filter decl_name (kids dev)"

definition has_ppi_fragment :: "Aml \<Rightarrow> bool" where
  "has_ppi_fragment dev = (Aml Op_ppi [] \<in> set (kids dev))"

text \<open>
  The device states after the engine's reset has run, with the base address \<open>baseaddr\<close>,
  once for each device of the list \<open>ds\<close>, in the order of the list.
\<close>

definition reset_devices ::
  "'e ext \<Rightarrow> hwaddr \<Rightarrow> dev_id list \<Rightarrow> (dev_id \<Rightarrow> 'e CRBState) \<Rightarrow> dev_id \<Rightarrow> 'e CRBState" where
  "reset_devices X baseaddr ds os =
     fold (\<lambda>d os. os(d := engine_reset X baseaddr (os d))) ds os"

text \<open>The addresses at which a region is mapped in the ISA address space.\<close>

definition mapped_at :: "'e machine \<Rightarrow> MemoryRegion \<Rightarrow> hwaddr list" where
  "mapped_at M r = map fst (filter (\<lambda>e. snd e = r) (isa_address_space M))"

subsection \<open>A test double\<close>

text \<open>
  An engine whose \<open>tpm_crb_init_memory\<close> stores \<open>err\<close> through \<open>errp\<close>, whose reset
  counts in \<open>core\<close> and which reports version \<open>v\<close>; and a machine with one device state,
  an empty ISA address space and no reset handler. The address constants get sample
  values. The theorems below hold for every engine, machine and value of the constants;
  the test double gives them concrete instances.
\<close>

definition stub_ext :: "Error option \<Rightarrow> TPMVersion \<Rightarrow> nat ext" where
  "stub_ext err v =
     \<lparr>TPM_CRB_ADDR_BASE = 0xFED40000, TPM_CRB_ADDR_SIZE = 0x1000,
      TPM_PPI_ADDR_BASE = 0xFED45A00,
      tpm_crb_init_memory = (\<lambda>st. (core st, err)),
      tpm_crb_reset = (\<lambda>st a. Suc (core st)),
      tpm_crb_get_version = (\<lambda>st. v),
      tpm_crb_request_completed = (\<lambda>st ret. core st),
      tpm_crb_pre_save = (\<lambda>st. (0, core st))\<rparr>"

text \<open>The same engine, except that its reset keeps in \<open>core\<close> the base address it received.\<close>

definition stub_ext_addr :: "nat ext" where
  "stub_ext_addr = (stub_ext None TPM_VERSION_2_0)\<lparr>tpm_crb_reset := (\<lambda>st a. a)\<rparr>"

definition stub_dev :: "TPMBackend option \<Rightarrow> bool \<Rightarrow> nat CRBState" where
  "stub_dev be ppi = \<lparr>state = \<lparr>tpmbe = be, ppi_enabled = ppi, core = 0\<rparr>\<rparr>"

definition stub_machine :: "dev_id list \<Rightarrow> TPMBackend option \<Rightarrow> bool \<Rightarrow> bool \<Rightarrow> nat machine" where
  "stub_machine ifs be ppi xen =
     \<lparr>objects = (\<lambda>d. stub_dev be ppi), tpm_ifs = ifs, xen_enabled = xen,
      isa_address_space = [], reset_handlers = [], crb_resets = []\<rparr>"

section \<open>Realize\<close>

subsection \<open>Helper facts\<close>

lemma tpm_find_other:
  "dev \<in> set (tpm_ifs M) \<Longrightarrow> other \<in> set (tpm_ifs M) \<Longrightarrow> other \<noteq> dev \<Longrightarrow> tpm_find M = None"
  by (cases "tpm_ifs M" rule: list.exhaust; cases "tl (tpm_ifs M)") (auto simp: tpm_find_def)

lemma reset_isa [simp]: "isa_address_space (tpm_crb_isa_reset X d M) = isa_address_space M"
  by (simp add: tpm_crb_isa_reset_def call_tpm_crb_reset_def engine_reset_def Let_def)

lemma reset_handlers_reset [simp]: "reset_handlers (tpm_crb_isa_reset X d M) = reset_handlers M"
  by (simp add: tpm_crb_isa_reset_def call_tpm_crb_reset_def engine_reset_def Let_def)

lemma reset_log [simp]:
  "crb_resets (tpm_crb_isa_reset X d M) = crb_resets M @ [(d, TPM_CRB_ADDR_BASE X)]"
  by (simp add: tpm_crb_isa_reset_def call_tpm_crb_reset_def engine_reset_def Let_def)

lemma reset_flags [simp]:
  "ppi_enabled (state (objects (tpm_crb_isa_reset X d M) d')) = ppi_enabled (state (objects M d'))"
  "tpmbe (state (objects (tpm_crb_isa_reset X d M) d')) = tpmbe (state (objects M d'))"
  by (simp_all add: tpm_crb_isa_reset_def call_tpm_crb_reset_def engine_reset_def Let_def)

lemma realize_isa:
  "tpm_find M \<noteq> None \<Longrightarrow> tpmbe (state (objects M dev)) \<noteq> None \<Longrightarrow>
   isa_address_space (snd (tpm_crb_isa_realize X dev M)) =
     isa_address_space M @ (TPM_CRB_ADDR_BASE X, Mmio dev) #
       (if ppi_enabled (state (objects M dev)) then [(TPM_PPI_ADDR_BASE X, PpiRam dev)] else [])"
  by (simp add: tpm_crb_isa_realize_def Let_def memory_region_add_subregion_def
      qemu_register_reset_def split: prod.splits)

lemma realize_flags:
  "ppi_enabled (state (objects (snd (tpm_crb_isa_realize X dev M)) d)) =
     ppi_enabled (state (objects M d))"
  "tpmbe (state (objects (snd (tpm_crb_isa_realize X dev M)) d)) = tpmbe (state (objects M d))"
  by (simp_all add: tpm_crb_isa_realize_def Let_def memory_region_add_subregion_def
      qemu_register_reset_def split: prod.splits)

lemma realize_ok_passed:
  "tpm_crb_isa_realize X dev M = (None, M') \<Longrightarrow>
     tpm_find M \<noteq> None \<and> tpmbe (state (objects M dev)) \<noteq> None"
  by (auto simp: tpm_crb_isa_realize_def Let_def split: if_splits)

subsection \<open>The two preconditions\<close>

text \<open>
  Claim C1. On a platform that already holds another TPM device, realize of a second
  instance fails with the singleton error (``at most one TPM device is permitted'') and
  returns the machine as it was: no region is mapped, nothing else has changed.
\<close>

theorem realize_singleton_violation:
  assumes "dev \<in> set (tpm_ifs M)" and "other \<in> set (tpm_ifs M)" and "other \<noteq> dev"
  shows "tpm_crb_isa_realize X dev M = (Some ''at most one TPM device is permitted'', M)"
  using tpm_find_other [OF assms] by (simp add: tpm_crb_isa_realize_def)

theorem realize_singleton_violation_witness:
  "tpm_crb_isa_realize (stub_ext None TPM_VERSION_2_0) 1 (stub_machine [0, 1] (Some 7) True False)
     = (Some ''at most one TPM device is permitted'', stub_machine [0, 1] (Some 7) True False)
   \<and> isa_address_space (snd (tpm_crb_isa_realize (stub_ext None TPM_VERSION_2_0) 1
        (stub_machine [0, 1] (Some 7) True False))) = []"
  using realize_singleton_violation [of 1 "stub_machine [0, 1] (Some 7) True False" 0
      "stub_ext None TPM_VERSION_2_0"]
  by (simp add: stub_machine_def)

text \<open>
  Claim C2. With no backend bound, realize fails and returns the machine as it was, so no
  region is mapped. The backend is checked after the singleton: the error is the missing
  backend error (``'tpmdev' property is required'') when \<open>tpm_find\<close> succeeds, and the
  singleton error when both preconditions are violated.
\<close>

theorem realize_missing_backend:
  assumes "tpmbe (state (objects M dev)) = None"
  shows "tpm_crb_isa_realize X dev M =
           (Some (if tpm_find M = None then ''at most one TPM device is permitted''
                  else '''tpmdev' property is required''), M)"
  using assms by (simp add: tpm_crb_isa_realize_def Let_def)

theorem realize_missing_backend_witness:
  "tpm_crb_isa_realize (stub_ext None TPM_VERSION_2_0) 0 (stub_machine [0] None True False)
     = (Some '''tpmdev' property is required'', stub_machine [0] None True False)
   \<and> tpm_crb_isa_realize (stub_ext None TPM_VERSION_2_0) 1 (stub_machine [0, 1] None True False)
     = (Some ''at most one TPM device is permitted'', stub_machine [0, 1] None True False)"
  using realize_missing_backend [of "stub_machine [0] None True False" 0
      "stub_ext None TPM_VERSION_2_0"]
    realize_missing_backend [of "stub_machine [0, 1] None True False" 1
      "stub_ext None TPM_VERSION_2_0"]
  by (simp add: stub_machine_def stub_dev_def tpm_find_def)

subsection \<open>An error from the engine's memory initialisation\<close>

text \<open>
  Claim C3. The claim asks that an error of \<open>tpm_crb_init_memory\<close> leaves no
  half-configured device. The code does not look at the error: on a machine whose only TPM
  device has a backend and PPI enabled, with an engine whose initialisation fails, realize
  returns that error and has nevertheless mapped the CRB and the PPI region and registered
  the reset handler.
\<close>

theorem realize_ignores_init_memory_error:
  "tpm_crb_isa_realize (stub_ext (Some ''cannot allocate'') TPM_VERSION_2_0) 0
     (stub_machine [0] (Some 7) True False)
   = (Some ''cannot allocate'',
      (stub_machine [0] (Some 7) True False)
        \<lparr>isa_address_space := [(0xFED40000, Mmio 0), (0xFED45A00, PpiRam 0)],
         reset_handlers := [(Ptr_tpm_crb_isa_reset, 0)]\<rparr>)"
  by (simp add: tpm_crb_isa_realize_def Let_def tpm_find_def stub_machine_def stub_dev_def
      stub_ext_def memory_region_add_subregion_def qemu_register_reset_def fun_eq_iff)

subsection \<open>The mapped regions\<close>

text \<open>
  Claim C4. After a realize that returns without an error, on a machine where the device's
  regions were not mapped before, the CRB register region is mapped exactly once, at
  \<open>TPM_CRB_ADDR_BASE\<close>, and the PPI RAM region is mapped exactly once, at
  \<open>TPM_PPI_ADDR_BASE\<close>, when \<open>ppi_enabled\<close> is set and not at all otherwise; realize adds
  nothing else to the ISA address space. The property table gives \<open>ppi_enabled\<close> the
  default true.
\<close>

theorem realize_success_maps:
  assumes ok: "tpm_crb_isa_realize X dev M = (None, M')"
    and fresh: "mapped_at M (Mmio dev) = []" "mapped_at M (PpiRam dev) = []"
  shows "mapped_at M' (Mmio dev) = [TPM_CRB_ADDR_BASE X]
       \<and> mapped_at M' (PpiRam dev) =
           (if ppi_enabled (state (objects M dev)) then [TPM_PPI_ADDR_BASE X] else [])
       \<and> isa_address_space M' =
           isa_address_space M @ (TPM_CRB_ADDR_BASE X, Mmio dev) #
             (if ppi_enabled (state (objects M dev)) then [(TPM_PPI_ADDR_BASE X, PpiRam dev)]
              else [])
       \<and> prop_defaults tpm_crb_isa_properties State_ppi_enabled = [True]"
proof -
  from ok have M': "M' = snd (tpm_crb_isa_realize X dev M)" by simp
  from realize_ok_passed [OF ok]
  have isa: "isa_address_space M' =
           isa_address_space M @ (TPM_CRB_ADDR_BASE X, Mmio dev) #
             (if ppi_enabled (state (objects M dev)) then [(TPM_PPI_ADDR_BASE X, PpiRam dev)]
              else [])"
    unfolding M' by (simp add: realize_isa)
  have "mapped_at M' (Mmio dev) = [TPM_CRB_ADDR_BASE X]"
    using fresh(1) by (simp add: mapped_at_def isa)
  moreover have "mapped_at M' (PpiRam dev) =
           (if ppi_enabled (state (objects M dev)) then [TPM_PPI_ADDR_BASE X] else [])"
    using fresh(2) by (simp add: mapped_at_def isa)
  moreover have "prop_defaults tpm_crb_isa_properties State_ppi_enabled = [True]"
    by (simp add: tpm_crb_isa_properties_def)
  ultimately show ?thesis using isa by simp
qed

theorem realize_success_maps_witness:
  "fst (tpm_crb_isa_realize (stub_ext None TPM_VERSION_2_0) 0
          (stub_machine [0] (Some 7) True False)) = None
   \<and> mapped_at (snd (tpm_crb_isa_realize (stub_ext None TPM_VERSION_2_0) 0
          (stub_machine [0] (Some 7) True False))) (Mmio 0) = [0xFED40000]
   \<and> mapped_at (snd (tpm_crb_isa_realize (stub_ext None TPM_VERSION_2_0) 0
          (stub_machine [0] (Some 7) True False))) (PpiRam 0) = [0xFED45A00]
   \<and> fst (tpm_crb_isa_realize (stub_ext None TPM_VERSION_2_0) 0
          (stub_machine [0] (Some 7) False False)) = None
   \<and> mapped_at (snd (tpm_crb_isa_realize (stub_ext None TPM_VERSION_2_0) 0
          (stub_machine [0] (Some 7) False False))) (PpiRam 0) = []"
proof -
  let ?X = "stub_ext None TPM_VERSION_2_0"
  have none: "fst (tpm_crb_isa_realize ?X 0 (stub_machine [0] (Some 7) p False)) = None" for p
    by (simp add: tpm_crb_isa_realize_def Let_def tpm_find_def stub_machine_def stub_dev_def
        stub_ext_def)
  have ok: "tpm_crb_isa_realize ?X 0 (stub_machine [0] (Some 7) p False) =
              (None, snd (tpm_crb_isa_realize ?X 0 (stub_machine [0] (Some 7) p False)))" for p
    using none [of p] by (simp add: prod_eq_iff)
  have fresh: "mapped_at (stub_machine [0] (Some 7) p False) r = []" for p r
    by (simp add: mapped_at_def stub_machine_def)
  have flag: "ppi_enabled (state (objects (stub_machine [0] (Some 7) p False) 0)) = p" for p
    by (simp add: stub_machine_def stub_dev_def)
  have addrs: "TPM_CRB_ADDR_BASE ?X = 0xFED40000" "TPM_PPI_ADDR_BASE ?X = 0xFED45A00"
    by (simp_all add: stub_ext_def)
  show ?thesis
    using realize_success_maps [OF ok [of True] fresh fresh]
      realize_success_maps [OF ok [of False] fresh fresh]
    by (simp add: none flag addrs)
qed

section \<open>Reset\<close>

lemma realize_passed:
  "tpm_find M \<noteq> None \<Longrightarrow> tpmbe (state (objects M dev)) \<noteq> None \<Longrightarrow>
   snd (tpm_crb_isa_realize X dev M) =
     (let c = fst (tpm_crb_init_memory X (state (objects M dev)));
          M1 = M\<lparr>objects := (objects M)(dev := (objects M dev)\<lparr>state := (state (objects M dev))\<lparr>core := c\<rparr>\<rparr>)\<rparr>;
          M3 = M1\<lparr>isa_address_space := isa_address_space M @ (TPM_CRB_ADDR_BASE X, Mmio dev) #
                 (if ppi_enabled (state (objects M dev)) then [(TPM_PPI_ADDR_BASE X, PpiRam dev)] else [])\<rparr>
      in if xen_enabled M then tpm_crb_isa_reset X dev M3
         else M3\<lparr>reset_handlers := reset_handlers M @ [(Ptr_tpm_crb_isa_reset, dev)]\<rparr>)"
  by (cases "tpm_find M"; cases "tpmbe (state (objects M dev))")
    (simp_all add: tpm_crb_isa_realize_def Let_def memory_region_add_subregion_def
      qemu_register_reset_def split: prod.splits)

lemma realize_failed:
  "tpm_find M = None \<or> tpmbe (state (objects M dev)) = None \<Longrightarrow>
   snd (tpm_crb_isa_realize X dev M) = M"
  by (auto simp: tpm_crb_isa_realize_def Let_def)

text \<open>
  Claim C5. Realize chooses between the two reset triggers once, by \<open>xen_enabled\<close>.
  Past the two preconditions: under Xen it calls \<open>tpm_crb_isa_reset\<close> once (one more
  entry in \<open>crb_resets\<close>, the engine's reset applied once to the initialised state) and
  registers nothing; otherwise it registers \<open>tpm_crb_isa_reset\<close> with the device once and
  calls no reset. When a precondition fails it does neither. The registered handler, called
  by the dispatcher, is the routine realize calls under Xen, and that routine hands
  \<open>TPM_CRB_ADDR_BASE\<close> to the engine's reset.
\<close>

theorem realize_reset_strategy:
  "(let M' = snd (tpm_crb_isa_realize X dev M);
        c = fst (tpm_crb_init_memory X (state (objects M dev)))
    in if tpm_find M = None \<or> tpmbe (state (objects M dev)) = None
       then crb_resets M' = crb_resets M \<and> reset_handlers M' = reset_handlers M
       else if xen_enabled M
       then crb_resets M' = crb_resets M @ [(dev, TPM_CRB_ADDR_BASE X)]
          \<and> reset_handlers M' = reset_handlers M
          \<and> core (state (objects M' dev)) =
              tpm_crb_reset X ((state (objects M dev))\<lparr>core := c\<rparr>) (TPM_CRB_ADDR_BASE X)
       else crb_resets M' = crb_resets M
          \<and> reset_handlers M' = reset_handlers M @ [(Ptr_tpm_crb_isa_reset, dev)]
          \<and> core (state (objects M' dev)) = c)
   \<and> call_reset_handler X (Ptr_tpm_crb_isa_reset, dev) M = tpm_crb_isa_reset X dev M
   \<and> crb_resets (tpm_crb_isa_reset X dev M) = crb_resets M @ [(dev, TPM_CRB_ADDR_BASE X)]
   \<and> core (state (objects (tpm_crb_isa_reset X dev M) dev)) =
        tpm_crb_reset X (state (objects M dev)) (TPM_CRB_ADDR_BASE X)"
proof (cases "tpm_find M = None \<or> tpmbe (state (objects M dev)) = None")
  case True
  then show ?thesis
    by (simp add: realize_failed Let_def tpm_crb_isa_reset_def call_tpm_crb_reset_def
        engine_reset_def)
next
  case False
  then have p: "tpm_find M \<noteq> None" "tpmbe (state (objects M dev)) \<noteq> None" by auto
  show ?thesis
    using False
    by (simp add: realize_passed [OF p] Let_def tpm_crb_isa_reset_def call_tpm_crb_reset_def
        engine_reset_def)
qed

theorem realize_reset_strategy_witness:
  "crb_resets (snd (tpm_crb_isa_realize (stub_ext None TPM_VERSION_2_0) 0
      (stub_machine [0] (Some 7) True True))) = [(0, 0xFED40000)]
   \<and> reset_handlers (snd (tpm_crb_isa_realize (stub_ext None TPM_VERSION_2_0) 0
      (stub_machine [0] (Some 7) True True))) = []
   \<and> core (state (objects (snd (tpm_crb_isa_realize (stub_ext None TPM_VERSION_2_0) 0
      (stub_machine [0] (Some 7) True True))) 0)) = 1
   \<and> crb_resets (snd (tpm_crb_isa_realize (stub_ext None TPM_VERSION_2_0) 0
      (stub_machine [0] (Some 7) True False))) = []
   \<and> reset_handlers (snd (tpm_crb_isa_realize (stub_ext None TPM_VERSION_2_0) 0
      (stub_machine [0] (Some 7) True False))) = [(Ptr_tpm_crb_isa_reset, 0)]
   \<and> core (state (objects (snd (tpm_crb_isa_realize (stub_ext None TPM_VERSION_2_0) 0
      (stub_machine [0] (Some 7) True False))) 0)) = 0"
proof -
  let ?X = "stub_ext None TPM_VERSION_2_0"
  have m: "tpm_find (stub_machine [0] (Some 7) True x) = Some 0"
    "tpmbe (state (objects (stub_machine [0] (Some 7) True x) 0)) = Some 7"
    "xen_enabled (stub_machine [0] (Some 7) True x) = x"
    "crb_resets (stub_machine [0] (Some 7) True x) = []"
    "reset_handlers (stub_machine [0] (Some 7) True x) = []"
    "state (objects (stub_machine [0] (Some 7) True x) 0) =
       \<lparr>tpmbe = Some 7, ppi_enabled = True, core = 0\<rparr>" for x
    by (simp_all add: stub_machine_def stub_dev_def tpm_find_def)
  have e: "TPM_CRB_ADDR_BASE ?X = 0xFED40000"
    "tpm_crb_init_memory ?X st = (core st, None)"
    "tpm_crb_reset ?X st a = Suc (core st)" for st a
    by (simp_all add: stub_ext_def)
  show ?thesis
    using realize_reset_strategy [of ?X 0 "stub_machine [0] (Some 7) True True"]
      realize_reset_strategy [of ?X 0 "stub_machine [0] (Some 7) True False"]
    by (simp add: m e Let_def)
qed

lemma call_handler_eq:
  "call_reset_handler X h M = tpm_crb_isa_reset X (snd h) M"
proof -
  obtain d where "h = (Ptr_tpm_crb_isa_reset, d)"
    by (cases h; cases "fst h") simp
  then show ?thesis by simp
qed

lemma call_handler_fields [simp]:
  "crb_resets (call_reset_handler X h M) = crb_resets M @ [(snd h, TPM_CRB_ADDR_BASE X)]"
  "reset_handlers (call_reset_handler X h M) = reset_handlers M"
  "isa_address_space (call_reset_handler X h M) = isa_address_space M"
  by (simp_all add: call_handler_eq)

lemma fold_handlers:
  "crb_resets (fold (call_reset_handler X) hs M) =
     crb_resets M @ map (\<lambda>h. (snd h, TPM_CRB_ADDR_BASE X)) hs
   \<and> reset_handlers (fold (call_reset_handler X) hs M) = reset_handlers M
   \<and> isa_address_space (fold (call_reset_handler X) hs M) = isa_address_space M"
  by (induction hs arbitrary: M) simp_all

lemma devices_reset_fields [simp]:
  "crb_resets (qemu_devices_reset X M) =
     crb_resets M @ map (\<lambda>h. (snd h, TPM_CRB_ADDR_BASE X)) (reset_handlers M)"
  "reset_handlers (qemu_devices_reset X M) = reset_handlers M"
  "isa_address_space (qemu_devices_reset X M) = isa_address_space M"
  by (simp_all add: qemu_devices_reset_def fold_handlers)

lemma resets_fields:
  "reset_handlers ((qemu_devices_reset X ^^ n) M) = reset_handlers M
   \<and> isa_address_space ((qemu_devices_reset X ^^ n) M) = isa_address_space M
   \<and> crb_resets ((qemu_devices_reset X ^^ n) M) =
       crb_resets M @
       concat (replicate n (map (\<lambda>h. (snd h, TPM_CRB_ADDR_BASE X)) (reset_handlers M)))"
proof (induction n)
  case 0
  show ?case by simp
next
  case (Suc n)
  then show ?case by (simp add: replicate_append_same [symmetric])
qed

lemma realize_passed_fields:
  assumes "tpm_find M \<noteq> None" and "tpmbe (state (objects M dev)) \<noteq> None"
  shows "crb_resets (snd (tpm_crb_isa_realize X dev M)) =
           crb_resets M @ (if xen_enabled M then [(dev, TPM_CRB_ADDR_BASE X)] else [])"
    and "reset_handlers (snd (tpm_crb_isa_realize X dev M)) =
           reset_handlers M @ (if xen_enabled M then [] else [(Ptr_tpm_crb_isa_reset, dev)])"
  by (simp_all add: realize_passed [OF assms] Let_def)

lemma call_reset_objects:
  "objects (call_tpm_crb_reset X d a M) = reset_devices X a [d] (objects M)"
  by (simp add: call_tpm_crb_reset_def reset_devices_def)

lemma reset_devices_append:
  "reset_devices X a (ds @ ds') os = reset_devices X a ds' (reset_devices X a ds os)"
  by (simp add: reset_devices_def)

lemma reset_devices_Nil [simp]: "reset_devices X a [] os = os"
  by (simp add: reset_devices_def)

lemma call_handler_objects:
  "objects (call_reset_handler X h M) =
     reset_devices X (TPM_CRB_ADDR_BASE X) [snd h] (objects M)"
  by (simp add: call_handler_eq tpm_crb_isa_reset_def call_reset_objects)

lemma fold_handlers_objects:
  "objects (fold (call_reset_handler X) hs M) =
     reset_devices X (TPM_CRB_ADDR_BASE X) (map snd hs) (objects M)"
proof (induction hs arbitrary: M)
  case Nil
  show ?case by simp
next
  case (Cons h hs)
  have "reset_devices X (TPM_CRB_ADDR_BASE X) (map snd (h # hs)) (objects M) =
          reset_devices X (TPM_CRB_ADDR_BASE X) (map snd hs)
            (reset_devices X (TPM_CRB_ADDR_BASE X) [snd h] (objects M))"
    using reset_devices_append [of X "TPM_CRB_ADDR_BASE X" "[snd h]" "map snd hs" "objects M"]
    by simp
  then show ?case by (simp add: Cons.IH call_handler_objects)
qed

lemma devices_reset_objects:
  "objects (qemu_devices_reset X M) =
     reset_devices X (TPM_CRB_ADDR_BASE X) (map snd (reset_handlers M)) (objects M)"
  by (simp add: qemu_devices_reset_def fold_handlers_objects)

lemma resets_objects:
  "objects ((qemu_devices_reset X ^^ n) M) =
     reset_devices X (TPM_CRB_ADDR_BASE X)
       (concat (replicate n (map snd (reset_handlers M)))) (objects M)"
proof (induction n)
  case 0
  show ?case by simp
next
  case (Suc n)
  let ?H = "map snd (reset_handlers M)"
  let ?N = "(qemu_devices_reset X ^^ n) M"
  have "concat (replicate (Suc n) ?H) = concat (replicate n ?H) @ ?H"
    by (simp add: replicate_append_same [symmetric])
  then have r: "reset_devices X (TPM_CRB_ADDR_BASE X) (concat (replicate (Suc n) ?H)) (objects M) =
      reset_devices X (TPM_CRB_ADDR_BASE X) ?H
        (reset_devices X (TPM_CRB_ADDR_BASE X) (concat (replicate n ?H)) (objects M))"
    by (simp only: reset_devices_append)
  have "objects ((qemu_devices_reset X ^^ Suc n) M) = objects (qemu_devices_reset X ?N)"
    by simp
  also have "\<dots> = reset_devices X (TPM_CRB_ADDR_BASE X) (map snd (reset_handlers ?N)) (objects ?N)"
    by (rule devices_reset_objects)
  also have "reset_handlers ?N = reset_handlers M"
    by (simp add: resets_fields)
  also have "objects ?N =
      reset_devices X (TPM_CRB_ADDR_BASE X) (concat (replicate n ?H)) (objects M)"
    by (rule Suc.IH)
  finally show ?case
    by (simp only: r)
qed

lemma realize_passed_objects:
  assumes "tpm_find M \<noteq> None" and "tpmbe (state (objects M dev)) \<noteq> None"
  shows "objects (snd (tpm_crb_isa_realize X dev M)) =
     reset_devices X (TPM_CRB_ADDR_BASE X) (if xen_enabled M then [dev] else [])
       ((objects M)(dev := (objects M dev)\<lparr>state := (state (objects M dev))
          \<lparr>core := fst (tpm_crb_init_memory X (state (objects M dev)))\<rparr>\<rparr>))"
  by (simp add: realize_passed [OF assms] Let_def tpm_crb_isa_reset_def call_reset_objects)

lemma concat_replicate_single: "concat (replicate n [x]) = replicate n x"
  by (induction n) simp_all

lemma reset_devices_replicate:
  "reset_devices X a (replicate n d) os d = (engine_reset X a ^^ n) (os d)"
proof (induction n arbitrary: os)
  case 0
  show ?case by simp
next
  case (Suc n)
  have "reset_devices X a (replicate (Suc n) d) os =
          reset_devices X a (replicate n d) (os(d := engine_reset X a (os d)))"
    by (simp add: reset_devices_def)
  then show ?case by (simp add: Suc.IH funpow_swap1)
qed

text \<open>
  Claim C10. Take a realize that passes the two preconditions, on a machine where the
  device's register region was not mapped before, followed by any number \<open>n\<close> of platform
  resets. The register region is then mapped at \<open>TPM_CRB_ADDR_BASE\<close> and nowhere else.
  Every call of the engine's reset made since realize began, whether by realize under Xen
  or by the dispatcher, is recorded with that same address, and such a call has been made
  for the device as soon as Xen is enabled or one platform reset has run. The address is
  the one the engine received: for every engine, the device states are those the engine's
  \<open>tpm_crb_reset\<close> leaves when it runs with \<open>TPM_CRB_ADDR_BASE\<close> once for each recorded
  call, in their order, on the states after \<open>tpm_crb_init_memory\<close>. With no handler
  registered before, the device is in the state after one such reset under Xen, and after
  \<open>n\<close> of them otherwise.
\<close>

theorem reset_base_is_mapped_base:
  assumes "tpm_find M \<noteq> None" and "tpmbe (state (objects M dev)) \<noteq> None"
    and "mapped_at M (Mmio dev) = []"
  shows "(let M' = (qemu_devices_reset X ^^ n) (snd (tpm_crb_isa_realize X dev M));
              new = drop (length (crb_resets M)) (crb_resets M');
              s0 = (objects M dev)\<lparr>state := (state (objects M dev))
                     \<lparr>core := fst (tpm_crb_init_memory X (state (objects M dev)))\<rparr>\<rparr>
          in mapped_at M' (Mmio dev) = [TPM_CRB_ADDR_BASE X]
           \<and> (\<forall>e \<in> set new. snd e = TPM_CRB_ADDR_BASE X)
           \<and> (xen_enabled M \<or> 0 < n \<longrightarrow> (dev, TPM_CRB_ADDR_BASE X) \<in> set new)
           \<and> objects M' =
               reset_devices X (TPM_CRB_ADDR_BASE X) (map fst new) ((objects M)(dev := s0))
           \<and> (reset_handlers M = [] \<longrightarrow>
                objects M' dev =
                  (engine_reset X (TPM_CRB_ADDR_BASE X) ^^ (if xen_enabled M then 1 else n)) s0))"
proof -
  let ?R = "snd (tpm_crb_isa_realize X dev M)"
  let ?M' = "(qemu_devices_reset X ^^ n) ?R"
  let ?B = "TPM_CRB_ADDR_BASE X"
  let ?f = "\<lambda>h::QEMUResetHandler \<times> dev_id. (snd h, ?B)"
  let ?pre = "if xen_enabled M then [dev] else []"
  let ?new = "(if xen_enabled M then [(dev, ?B)] else [])
              @ concat (replicate n (map ?f (reset_handlers ?R)))"
  let ?s0 = "(objects M dev)\<lparr>state := (state (objects M dev))
               \<lparr>core := fst (tpm_crb_init_memory X (state (objects M dev)))\<rparr>\<rparr>"
  let ?os0 = "(objects M)(dev := ?s0)"
  have log: "crb_resets ?M' = crb_resets M @ ?new"
    by (simp add: resets_fields realize_passed_fields(1) [OF assms(1,2)])
  then have new: "drop (length (crb_resets M)) (crb_resets ?M') = ?new"
    by simp
  have "isa_address_space ?M' = isa_address_space ?R"
    by (simp add: resets_fields)
  then have mapped: "mapped_at ?M' (Mmio dev) = [?B]"
    using assms(3) by (simp add: mapped_at_def realize_isa [OF assms(1,2)])
  have all: "\<forall>e \<in> set ?new. snd e = ?B"
    by auto
  have some: "(dev, ?B) \<in> set ?new" if "xen_enabled M \<or> 0 < n"
  proof (cases "xen_enabled M")
    case True
    then show ?thesis by simp
  next
    case False
    with that have "0 < n" by simp
    moreover have "(Ptr_tpm_crb_isa_reset, dev) \<in> set (reset_handlers ?R)"
      using False by (simp add: realize_passed_fields(2) [OF assms(1,2)])
    ultimately show ?thesis by force
  qed
  have devs: "map fst ?new = ?pre @ concat (replicate n (map snd (reset_handlers ?R)))"
    by (simp add: map_concat o_def)
  have "objects ?M' =
      reset_devices X ?B (concat (replicate n (map snd (reset_handlers ?R)))) (objects ?R)"
    by (rule resets_objects)
  also have "objects ?R = reset_devices X ?B ?pre ?os0"
    by (rule realize_passed_objects [OF assms(1,2)])
  finally have objs: "objects ?M' = reset_devices X ?B (map fst ?new) ?os0"
    by (simp only: devs reset_devices_append)
  have fresh: "objects ?M' dev = (engine_reset X ?B ^^ (if xen_enabled M then 1 else n)) ?s0"
    if h: "reset_handlers M = []"
  proof (cases "xen_enabled M")
    case True
    then have "map fst ?new = [dev]"
      using h by (simp add: realize_passed_fields(2) [OF assms(1,2)])
    then have "objects ?M' = reset_devices X ?B [dev] ?os0"
      using objs by simp
    then show ?thesis using True by (simp add: reset_devices_def)
  next
    case False
    then have "map fst ?new = replicate n dev"
      using h
      by (simp add: realize_passed_fields(2) [OF assms(1,2)] concat_replicate_single o_def
          map_concat)
    then have "objects ?M' = reset_devices X ?B (replicate n dev) ?os0"
      using objs by simp
    then show ?thesis using False by (simp add: reset_devices_replicate)
  qed
  show ?thesis
    unfolding Let_def new using mapped all some objs fresh by blast
qed

theorem reset_base_is_mapped_base_witness:
  "mapped_at ((qemu_devices_reset stub_ext_addr ^^ 2)
      (snd (tpm_crb_isa_realize stub_ext_addr 0
         (stub_machine [0] (Some 7) True False)))) (Mmio 0) = [0xFED40000]
   \<and> (0, 0xFED40000) \<in> set (crb_resets ((qemu_devices_reset stub_ext_addr ^^ 2)
      (snd (tpm_crb_isa_realize stub_ext_addr 0
         (stub_machine [0] (Some 7) True False)))))
   \<and> core (state (objects ((qemu_devices_reset stub_ext_addr ^^ 2)
      (snd (tpm_crb_isa_realize stub_ext_addr 0
         (stub_machine [0] (Some 7) True False)))) 0)) = 0xFED40000"
proof -
  let ?X = "stub_ext_addr"
  have m: "tpm_find (stub_machine [0] (Some 7) True False) \<noteq> None"
    "tpmbe (state (objects (stub_machine [0] (Some 7) True False) 0)) \<noteq> None"
    "mapped_at (stub_machine [0] (Some 7) True False) (Mmio 0) = []"
    by (simp_all add: stub_machine_def stub_dev_def tpm_find_def mapped_at_def)
  have z: "crb_resets (stub_machine [0] (Some 7) True False) = []"
    "reset_handlers (stub_machine [0] (Some 7) True False) = []"
    "\<not> xen_enabled (stub_machine [0] (Some 7) True False)"
    by (simp_all add: stub_machine_def)
  have addr: "TPM_CRB_ADDR_BASE ?X = 0xFED40000"
    by (simp add: stub_ext_addr_def stub_ext_def)
  have eng: "core (state (engine_reset ?X a s)) = a" for a s
    by (simp add: engine_reset_def stub_ext_addr_def stub_ext_def)
  have k: "(if xen_enabled (stub_machine [0] (Some 7) True False) then 1 else 2) = (2::nat)"
    using z(3) by simp
  note t = reset_base_is_mapped_base [OF m, where X = ?X and n = 2, unfolded Let_def addr k]
  have mapped: "mapped_at ((qemu_devices_reset ?X ^^ 2)
      (snd (tpm_crb_isa_realize ?X 0 (stub_machine [0] (Some 7) True False)))) (Mmio 0) =
      [0xFED40000]"
    using t by blast
  have logged: "(0, 0xFED40000) \<in> set (crb_resets ((qemu_devices_reset ?X ^^ 2)
      (snd (tpm_crb_isa_realize ?X 0 (stub_machine [0] (Some 7) True False)))))"
    using t z by simp
  have "objects ((qemu_devices_reset ?X ^^ 2)
      (snd (tpm_crb_isa_realize ?X 0 (stub_machine [0] (Some 7) True False)))) 0 =
      (engine_reset ?X 0xFED40000 ^^ 2)
        ((objects (stub_machine [0] (Some 7) True False) 0)
           \<lparr>state := (state (objects (stub_machine [0] (Some 7) True False) 0))
              \<lparr>core := fst (tpm_crb_init_memory ?X
                 (state (objects (stub_machine [0] (Some 7) True False) 0)))\<rparr>\<rparr>)"
    using t z(2) by blast
  then have stored: "core (state (objects ((qemu_devices_reset ?X ^^ 2)
      (snd (tpm_crb_isa_realize ?X 0 (stub_machine [0] (Some 7) True False)))) 0)) = 0xFED40000"
    by (simp add: numeral_2_eq_2 eng)
  show ?thesis
    using mapped logged stored by blast
qed

section \<open>The ACPI fragment\<close>

lemma build_scope:
  "snd (build_tpm_crb_isa_aml X adev M scope) =
     Aml (op scope) (kids scope @
       [Aml (Op_device ''TPM'')
          ((if tpm_crb_get_version X (state (objects M adev)) = TPM_VERSION_2_0
            then [aml_name_decl ''_HID'' (aml_string ''MSFT0101''),
                  aml_name_decl ''_STR'' (aml_string ''TPM 2.0 Device'')]
            else [aml_name_decl ''_HID'' (aml_eisaid ''PNP0C31'')])
           @ [aml_name_decl ''_UID'' (aml_int 1),
              aml_name_decl ''_STA'' (aml_int 0xF),
              aml_name_decl ''_CRS''
                (Aml Op_resource_template
                   [aml_memory32_fixed (TPM_CRB_ADDR_BASE X) (TPM_CRB_ADDR_SIZE X)
                      AML_READ_WRITE])]
           @ (if ppi_enabled (state (objects M adev)) then [Aml Op_ppi []] else []))])"
  by (simp add: build_tpm_crb_isa_aml_def Let_def tpm_crb_isa_get_version_def aml_append_def
      aml_device_def aml_resource_template_def tpm_build_ppi_acpi_def)

lemma build_ppi_fragment:
  "has_ppi_fragment (last (kids (snd (build_tpm_crb_isa_aml X adev M scope)))) =
     ppi_enabled (state (objects M adev))"
  by (auto simp: build_scope has_ppi_fragment_def aml_name_decl_def)

text \<open>
  Claim C6. The emitter appends one device node \<open>TPM\<close> to the scope. When the engine
  reports \<open>TPM_VERSION_2_0\<close> the node declares \<open>_HID\<close> as the string \<open>MSFT0101\<close>
  and \<open>_STR\<close> as \<open>TPM 2.0 Device\<close>; for every other version it declares \<open>_HID\<close> as
  the EISA id \<open>PNP0C31\<close> and no \<open>_STR\<close>. In both cases follow \<open>_UID\<close> 1,
  \<open>_STA\<close> 0xF and \<open>_CRS\<close>, a resource template with exactly one descriptor: a fixed
  32-bit memory range, read/write, of base \<open>TPM_CRB_ADDR_BASE\<close> and size
  \<open>TPM_CRB_ADDR_SIZE\<close>.
\<close>

theorem emit_device_node:
  "snd (build_tpm_crb_isa_aml X adev M scope) =
     Aml (op scope) (kids scope @
       [Aml (Op_device ''TPM'')
          ((if tpm_crb_isa_get_version X (objects M adev) = TPM_VERSION_2_0
            then [aml_name_decl ''_HID'' (aml_string ''MSFT0101''),
                  aml_name_decl ''_STR'' (aml_string ''TPM 2.0 Device'')]
            else [aml_name_decl ''_HID'' (aml_eisaid ''PNP0C31'')])
           @ [aml_name_decl ''_UID'' (aml_int 1),
              aml_name_decl ''_STA'' (aml_int 0xF),
              aml_name_decl ''_CRS''
                (Aml Op_resource_template
                   [aml_memory32_fixed (TPM_CRB_ADDR_BASE X) (TPM_CRB_ADDR_SIZE X)
                      AML_READ_WRITE])]
           @ (if ppi_enabled (state (objects M adev)) then [Aml Op_ppi []] else []))])
   \<and> decl_names (last (kids (snd (build_tpm_crb_isa_aml X adev M scope)))) =
       (if tpm_crb_isa_get_version X (objects M adev) = TPM_VERSION_2_0
        then [''_HID'', ''_STR'', ''_UID'', ''_STA'', ''_CRS'']
        else [''_HID'', ''_UID'', ''_STA'', ''_CRS''])"
  by (simp add: build_scope tpm_crb_isa_get_version_def decl_names_def map_filter_def
      aml_name_decl_def)

theorem emit_device_node_witness:
  "snd (build_tpm_crb_isa_aml (stub_ext None TPM_VERSION_2_0) 0
         (stub_machine [0] (Some 7) False False) (Aml (Op_scope ''_SB'') [])) =
     Aml (Op_scope ''_SB'')
       [Aml (Op_device ''TPM'')
          [aml_name_decl ''_HID'' (aml_string ''MSFT0101''),
           aml_name_decl ''_STR'' (aml_string ''TPM 2.0 Device''),
           aml_name_decl ''_UID'' (aml_int 1),
           aml_name_decl ''_STA'' (aml_int 15),
           aml_name_decl ''_CRS''
             (Aml Op_resource_template [aml_memory32_fixed 0xFED40000 0x1000 AML_READ_WRITE])]]
   \<and> snd (build_tpm_crb_isa_aml (stub_ext None (TPM_VERSION_other 1)) 0
         (stub_machine [0] (Some 7) False False) (Aml (Op_scope ''_SB'') [])) =
     Aml (Op_scope ''_SB'')
       [Aml (Op_device ''TPM'')
          [aml_name_decl ''_HID'' (aml_eisaid ''PNP0C31''),
           aml_name_decl ''_UID'' (aml_int 1),
           aml_name_decl ''_STA'' (aml_int 15),
           aml_name_decl ''_CRS''
             (Aml Op_resource_template [aml_memory32_fixed 0xFED40000 0x1000 AML_READ_WRITE])]]"
  using emit_device_node [of "stub_ext None TPM_VERSION_2_0" 0
      "stub_machine [0] (Some 7) False False" "Aml (Op_scope ''_SB'') []"]
    emit_device_node [of "stub_ext None (TPM_VERSION_other 1)" 0
      "stub_machine [0] (Some 7) False False" "Aml (Op_scope ''_SB'') []"]
  by (simp add: stub_ext_def stub_machine_def stub_dev_def tpm_crb_isa_get_version_def)

text \<open>
  Claim C7. The flag \<open>ppi_enabled\<close> decides both artifacts alike. After a realize that
  passes the two preconditions (the PPI region not mapped before), the node emitted for
  the realized device has the PPI fragment and the PPI region is mapped, at
  \<open>TPM_PPI_ADDR_BASE\<close>, when the flag is set; when it is clear the region is not mapped
  and the node has no PPI fragment.
\<close>

theorem ppi_flag_consistent:
  assumes "tpm_find M \<noteq> None" and "tpmbe (state (objects M dev)) \<noteq> None"
    and "mapped_at M (PpiRam dev) = []"
  shows "(let M' = snd (tpm_crb_isa_realize X dev M);
              node = last (kids (snd (build_tpm_crb_isa_aml X dev M' scope)))
          in if ppi_enabled (state (objects M dev))
             then mapped_at M' (PpiRam dev) = [TPM_PPI_ADDR_BASE X] \<and> has_ppi_fragment node
             else mapped_at M' (PpiRam dev) = [] \<and> \<not> has_ppi_fragment node)"
  using assms(3)
  by (simp add: Let_def build_ppi_fragment realize_flags mapped_at_def
      realize_isa [OF assms(1,2)])

theorem ppi_flag_consistent_witness:
  "mapped_at (snd (tpm_crb_isa_realize (stub_ext None TPM_VERSION_2_0) 0
       (stub_machine [0] (Some 7) True False))) (PpiRam 0) = [0xFED45A00]
   \<and> has_ppi_fragment (last (kids (snd (build_tpm_crb_isa_aml (stub_ext None TPM_VERSION_2_0) 0
       (snd (tpm_crb_isa_realize (stub_ext None TPM_VERSION_2_0) 0
          (stub_machine [0] (Some 7) True False))) (Aml (Op_scope ''_SB'') [])))))
   \<and> mapped_at (snd (tpm_crb_isa_realize (stub_ext None TPM_VERSION_2_0) 0
       (stub_machine [0] (Some 7) False False))) (PpiRam 0) = []
   \<and> \<not> has_ppi_fragment (last (kids (snd (build_tpm_crb_isa_aml (stub_ext None TPM_VERSION_2_0) 0
       (snd (tpm_crb_isa_realize (stub_ext None TPM_VERSION_2_0) 0
          (stub_machine [0] (Some 7) False False))) (Aml (Op_scope ''_SB'') [])))))"
proof -
  let ?X = "stub_ext None TPM_VERSION_2_0"
  have m: "tpm_find (stub_machine [0] (Some 7) p False) \<noteq> None"
    "tpmbe (state (objects (stub_machine [0] (Some 7) p False) 0)) \<noteq> None"
    "mapped_at (stub_machine [0] (Some 7) p False) (PpiRam 0) = []" for p
    by (simp_all add: stub_machine_def stub_dev_def tpm_find_def mapped_at_def)
  have flag: "ppi_enabled (state (objects (stub_machine [0] (Some 7) p False) 0)) = p" for p
    by (simp add: stub_machine_def stub_dev_def)
  have addr: "TPM_PPI_ADDR_BASE ?X = 0xFED45A00"
    by (simp add: stub_ext_def)
  show ?thesis
    using ppi_flag_consistent [OF m [of True], of ?X "Aml (Op_scope ''_SB'') []"]
      ppi_flag_consistent [OF m [of False], of ?X "Aml (Op_scope ''_SB'') []"]
    by (simp add: Let_def flag addr)
qed

text \<open>
  Claim C9. The emitter returns the machine it was given: no field of the device (backend,
  PPI flag, engine state), no mapping and no reset handler has changed. Of the scope it
  keeps the node and the children it had, and appends one child.
\<close>

theorem emit_reads_only:
  "fst (build_tpm_crb_isa_aml X adev M scope) = M
   \<and> op (snd (build_tpm_crb_isa_aml X adev M scope)) = op scope
   \<and> butlast (kids (snd (build_tpm_crb_isa_aml X adev M scope))) = kids scope"
  by (simp add: build_scope) (simp add: build_tpm_crb_isa_aml_def Let_def)

section \<open>Pre-save\<close>

text \<open>
  Claim C8. The pre-save hook returns the status of the engine's \<open>tpm_crb_pre_save\<close> as
  it is, so it is zero exactly when the engine's is, and leaves the device in the state the
  engine left. The hook is the \<open>pre_save\<close> of the device's \<open>VMStateDescription\<close>, whose
  field list is empty.
\<close>

theorem pre_save_delegates:
  "fst (tpm_crb_isa_pre_save X s) = fst (tpm_crb_pre_save X (state s))
   \<and> (fst (tpm_crb_isa_pre_save X s) = 0 \<longleftrightarrow> fst (tpm_crb_pre_save X (state s)) = 0)
   \<and> core (state (snd (tpm_crb_isa_pre_save X s))) = snd (tpm_crb_pre_save X (state s))
   \<and> vmsd_pre_save (vmstate_tpm_crb_isa :: 'e VMStateDescription) X s = tpm_crb_isa_pre_save X s
   \<and> vmsd_fields (vmstate_tpm_crb_isa :: 'e VMStateDescription) = []
   \<and> vmsd_name (vmstate_tpm_crb_isa :: 'e VMStateDescription) = ''tpm-crb''"
  for X :: "'e ext"
  by (simp add: tpm_crb_isa_pre_save_def vmstate_tpm_crb_isa_def split: prod.splits)

theorem pre_save_delegates_witness:
  "fst (tpm_crb_isa_pre_save
         ((stub_ext None TPM_VERSION_2_0)\<lparr>tpm_crb_pre_save := \<lambda>st. (- 5, core st)\<rparr>)
         (stub_dev (Some 7) True)) = - 5
   \<and> vmsd_fields (vmstate_tpm_crb_isa :: nat VMStateDescription) = []"
  using pre_save_delegates
    [of "(stub_ext None TPM_VERSION_2_0)\<lparr>tpm_crb_pre_save := \<lambda>st. (- 5, core st)\<rparr>"
      "stub_dev (Some 7) True"]
  by (simp add: stub_ext_def)

end
